theory Spec2Isabelle
  imports Main "HOL-Library.Sublist"
begin

section \<open>JavaScript values\<close>

text \<open>
  The values the notifier handles: what the XML body parser and the query-string
  parser hand over (strings, arrays, objects, and \<open>undefined\<close> for an absent
  property) and what callers pass to \<open>subscribe\<close>/\<open>unsubscribe\<close>.
  An object is its list of own properties in insertion order.  A string is a list
  of code units below 256.
\<close>

datatype jsval =
    Undefined
  | Str string
  | Arr "jsval list"
  | Obj "(string \<times> jsval) list"

text \<open>\<open>Error msg\<close> is \<open>new Error(msg)\<close>; \<open>TypeError\<close> is what the runtime throws
  on a property read of \<open>undefined\<close>, a call of a non-function, or a wrongly typed
  argument of a library call; \<open>UnhandledError\<close> is what \<open>EventEmitter.emit\<close>
  throws for an \<open>error\<close> event that has no listener.\<close>

datatype exn = Error string | TypeError | UnhandledError

text \<open>Truthiness, as \<open>!v\<close> and \<open>if (v)\<close> test it.\<close>

fun truthy :: "jsval \<Rightarrow> bool" where
  "truthy Undefined = False"
| "truthy (Str s) = (s \<noteq> [])"
| "truthy (Arr xs) = True"
| "truthy (Obj kvs) = True"

definition truthy_opt :: "string option \<Rightarrow> bool" where
  "truthy_opt v = (case v of None \<Rightarrow> False | Some s \<Rightarrow> s \<noteq> [])"

fun typeof_string :: "jsval \<Rightarrow> bool" where
  "typeof_string (Str s) = True"
| "typeof_string v = False"

fun isArray :: "jsval \<Rightarrow> bool" where
  "isArray (Arr xs) = True"
| "isArray v = False"

definition own_prop :: "(string \<times> jsval) list \<Rightarrow> string \<Rightarrow> jsval" where
  "own_prop kvs k = (case map_of kvs k of None \<Rightarrow> Undefined | Some v \<Rightarrow> v)"

text \<open>
  \<open>v[k]\<close> for the property names the notifier reads (element names, \<open>$\<close>,
  \<open>href\<close>, and the index \<open>0\<close>).  Reading a property of \<open>undefined\<close> throws.
  A string or an array has none of the named properties (the one inherited name among
  them, \<open>link\<close> of a string, is only read from a value whose \<open>yt:videoid\<close>
  property was not \<open>undefined\<close>, which a string never is); index \<open>0\<close> is the
  first character or element.
\<close>

fun get_prop :: "jsval \<Rightarrow> string \<Rightarrow> exn + jsval" where
  "get_prop Undefined k = Inl TypeError"
| "get_prop (Obj kvs) k = Inr (own_prop kvs k)"
| "get_prop (Arr xs) k =
     Inr (if k = ''0'' then (case xs of [] \<Rightarrow> Undefined | x # _ \<Rightarrow> x) else Undefined)"
| "get_prop (Str s) k =
     Inr (if k = ''0'' then (case s of [] \<Rightarrow> Undefined | c # _ \<Rightarrow> Str [c]) else Undefined)"

text \<open>A chain of reads \<open>v[k1][k2]...\<close>, left to right; the first throw ends it.\<close>

fun get_path :: "jsval \<Rightarrow> string list \<Rightarrow> exn + jsval" where
  "get_path v [] = Inr v"
| "get_path v (k # ks) = (case get_prop v k of Inl e \<Rightarrow> Inl e | Inr w \<Rightarrow> get_path w ks)"

fun join :: "string \<Rightarrow> string list \<Rightarrow> string" where
  "join sep [] = []"
| "join sep [x] = x"
| "join sep (x # y # ys) = x @ sep @ join sep (y # ys)"

text \<open>String coercion, as \<open>base_topic + channel_id\<close> applies it to its right operand.\<close>

fun to_string :: "jsval \<Rightarrow> string" where
  "to_string Undefined = ''undefined''"
| "to_string (Str s) = s"
| "to_string (Arr xs) = join '','' (map (\<lambda>x. if x = Undefined then [] else to_string x) xs)"
| "to_string (Obj kvs) = ''[object Object]''"

section \<open>String operations\<close>

text \<open>\<open>s.split(sep)\<close> for a one-character separator.\<close>

fun split :: "char \<Rightarrow> string \<Rightarrow> string list" where
  "split sep [] = [[]]"
| "split sep (c # cs) =
     (if c = sep then [] # split sep cs
      else (case split sep cs of [] \<Rightarrow> [[c]] | w # ws \<Rightarrow> (c # w) # ws))"

text \<open>\<open>a.shift()\<close> and \<open>a.pop()\<close>: the removed element (\<open>None\<close> for
  \<open>undefined\<close> on an empty array) and the array that is left.\<close>

fun shift :: "'a list \<Rightarrow> 'a option \<times> 'a list" where
  "shift [] = (None, [])"
| "shift (x # xs) = (Some x, xs)"

definition pop :: "'a list \<Rightarrow> 'a option \<times> 'a list" where
  "pop xs = (if xs = [] then (None, []) else (Some (last xs), butlast xs))"

text \<open>\<open>(v || '')\<close> for a string or \<open>undefined\<close>.\<close>

definition or_empty :: "string option \<Rightarrow> string" where
  "or_empty v = (case v of None \<Rightarrow> [] | Some s \<Rightarrow> s)"

text \<open>\<open>toLowerCase\<close> on code units below 256: A-Z and the Latin-1 capitals.\<close>

definition lower_char :: "char \<Rightarrow> char" where
  "lower_char c =
     (let n = (of_char c :: nat)
      in if (65 \<le> n \<and> n \<le> 90) \<or> (192 \<le> n \<and> n \<le> 222 \<and> n \<noteq> 215)
         then char_of (n + 32) else c)"

definition toLowerCase :: "string \<Rightarrow> string" where
  "toLowerCase s = map lower_char s"

text \<open>\<open>s.replace(pat, rep)\<close> with a string pattern: the first occurrence only.\<close>

fun replace_first :: "string \<Rightarrow> string \<Rightarrow> string \<Rightarrow> string" where
  "replace_first pat rep [] = (if pat = [] then rep else [])"
| "replace_first pat rep (c # cs) =
     (if prefix pat (c # cs) then rep @ drop (length pat) (c # cs)
      else c # replace_first pat rep cs)"

text \<open>\<open>v.replace(pat, rep)\<close> on a value: only a string has the method.\<close>

fun js_replace :: "jsval \<Rightarrow> string \<Rightarrow> string \<Rightarrow> exn + string" where
  "js_replace (Str s) pat rep = Inr (replace_first pat rep s)"
| "js_replace v pat rep = Inl TypeError"

section \<open>Form encoding of the outbound request\<close>

text \<open>\<open>qs.escape\<close>: letters, digits and \<open>- _ . ! ~ * ' ( )\<close> stay, every other
  code unit becomes the percent-encoded bytes of its UTF-8 form.\<close>

definition hex_digit :: "nat \<Rightarrow> char" where
  "hex_digit d = ''0123456789ABCDEF'' ! d"

definition percent :: "nat \<Rightarrow> string" where
  "percent b = [CHR ''%'', hex_digit (b div 16), hex_digit (b mod 16)]"

definition unreserved :: "char \<Rightarrow> bool" where
  "unreserved c =
     (let n = (of_char c :: nat)
      in (65 \<le> n \<and> n \<le> 90) \<or> (97 \<le> n \<and> n \<le> 122) \<or> (48 \<le> n \<and> n \<le> 57)
         \<or> n \<in> {45, 95, 46, 33, 126, 42, 39, 40, 41})"

definition escape_char :: "char \<Rightarrow> string" where
  "escape_char c =
     (let n = (of_char c :: nat)
      in if unreserved c then [c]
         else if n < 128 then percent n
         else percent (192 + n div 64) @ percent (128 + n mod 64))"

definition qs_escape :: "string \<Rightarrow> string" where
  "qs_escape s = concat (map escape_char s)"

text \<open>\<open>qs.stringify(data)\<close> for an object whose values are strings.\<close>

definition qs_stringify :: "(string \<times> string) list \<Rightarrow> string" where
  "qs_stringify data = join ''&'' (map (\<lambda>(k, v). qs_escape k @ ''='' @ qs_escape v) data)"

text \<open>
  Reading a form body back, as the receiver of an
  \<open>application/x-www-form-urlencoded\<close> body does: the body is cut at \<open>&\<close>, each
  field at its first \<open>=\<close>, and name and value are decoded: \<open>+\<close> is a space,
  \<open>%XY\<close> the byte with hex digits \<open>XY\<close>, and the bytes are read as UTF-8 (for
  code units below 256, one byte or a two-byte sequence).
\<close>

definition hex_val :: "char \<Rightarrow> nat" where
  "hex_val c =
     (let n = (of_char c :: nat)
      in if 48 \<le> n \<and> n \<le> 57 then n - 48
         else if 65 \<le> n \<and> n \<le> 70 then n - 55
         else if 97 \<le> n \<and> n \<le> 102 then n - 87
         else 0)"

fun percent_decode :: "string \<Rightarrow> nat list" where
  "percent_decode [] = []"
| "percent_decode (c # cs) =
     (if c = CHR ''%'' then
        (case cs of
           h1 # h2 # rest \<Rightarrow> (hex_val h1 * 16 + hex_val h2) # percent_decode rest
         | _ \<Rightarrow> of_char c # percent_decode cs)
      else if c = CHR ''+'' then 32 # percent_decode cs
      else of_char c # percent_decode cs)"

fun utf8_decode :: "nat list \<Rightarrow> string" where
  "utf8_decode [] = []"
| "utf8_decode [b] = [char_of b]"
| "utf8_decode (b1 # b2 # bs) =
     (if 192 \<le> b1 then char_of ((b1 - 192) * 64 + (b2 - 128)) # utf8_decode bs
      else char_of b1 # utf8_decode (b2 # bs))"

definition qs_unescape :: "string \<Rightarrow> string" where
  "qs_unescape s = utf8_decode (percent_decode s)"

definition form_decode :: "string \<Rightarrow> (string \<times> string) list" where
  "form_decode data =
     (if data = [] then []
      else map (\<lambda>f. (qs_unescape (takeWhile (\<lambda>c. c \<noteq> CHR ''='') f),
                    qs_unescape (drop 1 (dropWhile (\<lambda>c. c \<noteq> CHR ''='') f))))
             (split CHR ''&'' data))"

text \<open>The UTF-8 bytes of a code unit below 256.\<close>

definition utf8_bytes :: "char \<Rightarrow> nat list" where
  "utf8_bytes c =
     (let n = (of_char c :: nat)
      in if n < 128 then [n] else [192 + n div 64, 128 + n mod 64])"

section \<open>The notifier\<close>

definition base_topic :: string where
  "base_topic = ''https://www.youtube.com/xml/feeds/videos.xml?channel_id=''"

text \<open>
  The fields of a constructed \<open>YouTubeNotifier\<close> that the requests and the handlers
  read.  The class extends \<open>EventEmitter\<close>; of the listeners the host has
  registered, \<open>error_listener\<close> keeps the one fact that \<open>emit\<close> depends on:
  whether the \<open>error\<close> event has a listener.
\<close>

record notifier =
  hubCallback :: string
  hubUrl :: string
  secret :: "string option"
  error_listener :: bool

text \<open>\<open>if (this.secret)\<close>.\<close>

definition secret_set :: "notifier \<Rightarrow> bool" where
  "secret_set n = truthy_opt (secret n)"

subsection \<open>Outbound subscription requests\<close>

text \<open>One call \<open>post(url, data, {headers})\<close> of the HTTP client.\<close>

record outbound =
  post_url :: string
  post_data :: string
  post_headers :: "(string \<times> string) list"

text \<open>The object \<open>data\<close> that \<open>_makeRequest\<close> builds before encoding it.\<close>

definition makeRequest_data :: "notifier \<Rightarrow> jsval \<Rightarrow> string \<Rightarrow> (string \<times> string) list" where
  "makeRequest_data n channel_id ty =
     (let topic = base_topic @ to_string channel_id;
          data = [(''hub.callback'', hubCallback n), (''hub.mode'', ty), (''hub.topic'', topic)]
      in case secret n of
           None \<Rightarrow> data
         | Some s \<Rightarrow> if s \<noteq> [] then data @ [(''hub.secret'', s)] else data)"

definition makeRequest :: "notifier \<Rightarrow> jsval \<Rightarrow> string \<Rightarrow> outbound" where
  "makeRequest n channel_id ty =
     \<lparr>post_url = hubUrl n,
      post_data = qs_stringify (makeRequest_data n channel_id ty),
      post_headers = [(''Content-Type'', ''application/x-www-form-urlencoded'')]\<rparr>"

definition channels_error :: exn where
  "channels_error = Error ''You need to provide a channel id or an array of channel ids.''"

text \<open>
  \<open>subscribe\<close> and \<open>unsubscribe\<close> return the requests fired, in order, and the
  exception thrown, if any.  In \<open>unsubscribe\<close> the string branch calls
  \<open>this.makeRequest\<close>, a property the class does not define, so the call throws.
\<close>

definition subscribe :: "notifier \<Rightarrow> jsval \<Rightarrow> outbound list \<times> exn option" where
  "subscribe n channels =
     (if \<not> truthy channels \<or> (\<not> typeof_string channels \<and> \<not> isArray channels)
      then ([], Some channels_error)
      else if typeof_string channels then ([makeRequest n channels ''subscribe''], None)
      else (case channels of
              Arr cs \<Rightarrow> (map (\<lambda>channel. makeRequest n channel ''subscribe'') cs, None)
            | _ \<Rightarrow> ([], Some TypeError)))"

definition unsubscribe :: "notifier \<Rightarrow> jsval \<Rightarrow> outbound list \<times> exn option" where
  "unsubscribe n channels =
     (if \<not> truthy channels \<or> (\<not> typeof_string channels \<and> \<not> isArray channels)
      then ([], Some channels_error)
      else if typeof_string channels then ([], Some TypeError)
      else (case channels of
              Arr cs \<Rightarrow> (map (\<lambda>channel. makeRequest n channel ''unsubscribe'') cs, None)
            | _ \<Rightarrow> ([], Some TypeError)))"

subsection \<open>The callback handler\<close>

text \<open>
  What a handler does that the outside sees, in order: \<open>SendStatus c\<close> is
  \<open>res.sendStatus(c)\<close>, \<open>End c hs b\<close> is \<open>res.status(c).set(hs).end(b)\<close>,
  \<open>Emit name data\<close> is an event handed to the listeners by
  \<open>this.emit(name, data)\<close> (what the host's listeners do with it is not part of the
  notifier).  A handler's result is this trace and the exception that escaped it, if
  any.
\<close>

datatype effect =
    SendStatus nat
  | End nat "(string \<times> string) list" string
  | Emit jsval jsval

text \<open>
  An incoming request: \<open>query\<close> is \<open>urllib.parse(req.url, true, true).query\<close>
  (each value a string, or an array of strings when the key is repeated),
  \<open>headers\<close> is \<open>req.headers\<close>, \<open>body\<close> is the parsed \<open>req.body\<close> and
  \<open>rawBody\<close> the unparsed one, absent when no XML body was read.
\<close>

record request =
  http_method :: string
  query :: "(string \<times> jsval) list"
  headers :: "(string \<times> string) list"
  body :: jsval
  rawBody :: "string option"

text \<open>The crypto provider: \<open>createHmac algo key\<close> is \<open>None\<close> when
  \<open>crypto.createHmac\<close> throws, else the function from the data given to
  \<open>update\<close> to \<open>digest('hex')\<close>.\<close>

type_synonym crypto = "string \<Rightarrow> string \<Rightarrow> (string \<Rightarrow> string) option"

text \<open>
  \<open>this.emit(name, data)\<close>, inherited from \<open>EventEmitter\<close>: when \<open>name\<close> is
  the string \<open>error\<close> and no \<open>error\<close> listener is registered, nothing is handed
  over and \<open>emit\<close> throws; every other event is handed to its listeners.
\<close>

definition emit :: "notifier \<Rightarrow> jsval \<Rightarrow> jsval \<Rightarrow> exn + effect" where
  "emit n name data =
     (if name = Str ''error'' \<and> \<not> error_listener n then Inl UnhandledError
      else Inr (Emit name data))"

definition text_plain :: "(string \<times> string) list" where
  "text_plain = [(''Content-Type'', ''text/plain'')]"

text \<open>\<open>res.status(c).set(hs).end(chunk)\<close>: \<open>undefined\<close> ends the response with
  no body; a chunk that is neither a string nor \<open>undefined\<close> makes \<open>end\<close> throw.\<close>

fun res_end :: "nat \<Rightarrow> (string \<times> string) list \<Rightarrow> jsval \<Rightarrow> exn + effect" where
  "res_end c hs Undefined = Inr (End c hs [])"
| "res_end c hs (Str s) = Inr (End c hs s)"
| "res_end c hs v = Inl TypeError"

definition onGetRequest :: "notifier \<Rightarrow> request \<Rightarrow> effect list \<times> exn option" where
  "onGetRequest n req =
     (let params = own_prop (query req)
      in if \<not> truthy (params ''hub.topic'') \<or> \<not> truthy (params ''hub.mode'')
         then ([End 400 text_plain ''Bad Request''], None)
         else (case res_end 200 text_plain (params ''hub.challenge'') of
                 Inl e \<Rightarrow> ([], Some e)
               | Inr sent \<Rightarrow>
                   (case js_replace (params ''hub.topic'') base_topic [] of
                      Inl e \<Rightarrow> ([sent], Some e)
                    | Inr channel \<Rightarrow>
                        (let data = [(''type'', params ''hub.mode''), (''channel'', Str channel)];
                             data' = (if truthy (params ''hub.lease_seconds'')
                                      then data @ [(''lease_seconds'', params ''hub.lease_seconds'')]
                                      else data)
                         in (case emit n (params ''hub.mode'') (Obj data') of
                               Inl e \<Rightarrow> ([sent], Some e)
                             | Inr event \<Rightarrow> ([sent, event], None))))))"

text \<open>
  The two parts read from the signature header \<open>h\<close>: with
  \<open>signatureParts = h.split('=')\<close>, \<open>algo\<close> is
  \<open>(signatureParts.shift() || '').toLowerCase()\<close> and \<open>signature\<close> is
  \<open>(signatureParts.pop() || '').toLowerCase()\<close>, popped from what the shift left.
\<close>

definition algo_of :: "string \<Rightarrow> string" where
  "algo_of h = toLowerCase (or_empty (fst (shift (split CHR ''='' h))))"

definition signature_of :: "string \<Rightarrow> string" where
  "signature_of h = toLowerCase (or_empty (fst (pop (snd (shift (split CHR ''='' h))))))"

text \<open>
  The block under \<open>// Match Secret\<close>: \<open>Some r\<close> when the handler returns (or
  throws) there with result \<open>r\<close>, \<open>None\<close> when it goes on to build the event.
\<close>

definition match_secret :: "notifier \<Rightarrow> crypto \<Rightarrow> request \<Rightarrow> (effect list \<times> exn option) option" where
  "match_secret n createHmac req =
     (case secret n of
        None \<Rightarrow> None
      | Some key \<Rightarrow>
          if key = [] then None
          else (case map_of (headers req) ''x-hub-signature'' of
                  None \<Rightarrow> Some ([], Some TypeError)
                | Some h \<Rightarrow>
                    (case createHmac (algo_of h) key of
                       None \<Rightarrow> Some ([SendStatus 403], None)
                     | Some hmac \<Rightarrow>
                         (case rawBody req of
                            None \<Rightarrow> Some ([], Some TypeError)
                          | Some raw \<Rightarrow>
                              if toLowerCase (hmac raw) \<noteq> signature_of h
                              then Some ([SendStatus 200], None)
                              else None))))"

text \<open>The object \<open>data\<close> built from the first entry; the reads run in the order
  of the object literal.\<close>

definition entry_data :: "jsval \<Rightarrow> exn + jsval" where
  "entry_data entry =
     (case get_path entry [''yt:videoid'', ''0''] of Inl e \<Rightarrow> Inl e | Inr video_id \<Rightarrow>
      case get_path entry [''title'', ''0''] of Inl e \<Rightarrow> Inl e | Inr video_title \<Rightarrow>
      case get_path entry [''link'', ''0'', ''$'', ''href''] of Inl e \<Rightarrow> Inl e | Inr video_link \<Rightarrow>
      case get_path entry [''yt:channelid'', ''0''] of Inl e \<Rightarrow> Inl e | Inr channel_id \<Rightarrow>
      case get_path entry [''author'', ''0'', ''name'', ''0''] of Inl e \<Rightarrow> Inl e | Inr channel_name \<Rightarrow>
      case get_path entry [''author'', ''0'', ''uri'', ''0''] of Inl e \<Rightarrow> Inl e | Inr channel_link \<Rightarrow>
      case get_path entry [''published'', ''0''] of Inl e \<Rightarrow> Inl e | Inr published \<Rightarrow>
      case get_path entry [''updated'', ''0''] of Inl e \<Rightarrow> Inl e | Inr updated \<Rightarrow>
        Inr (Obj [(''video'', Obj [(''id'', video_id), (''title'', video_title), (''link'', video_link)]),
                  (''channel'', Obj [(''id'', channel_id), (''name'', channel_name), (''link'', channel_link)]),
                  (''published'', published),
                  (''updated'', updated)]))"

definition onPostRequest :: "notifier \<Rightarrow> crypto \<Rightarrow> request \<Rightarrow> effect list \<times> exn option" where
  "onPostRequest n createHmac req =
     (if secret_set n \<and> \<not> truthy_opt (map_of (headers req) ''x-hub-signature'')
      then ([SendStatus 403], None)
      else (case get_path (body req) [''feed'', ''at:deleted-entry''] of
              Inl e \<Rightarrow> ([], Some e)
            | Inr deleted \<Rightarrow>
                if truthy deleted then ([SendStatus 200], None)
                else (case get_path (body req) [''feed'', ''entry''] of
                        Inl e \<Rightarrow> ([], Some e)
                      | Inr entries \<Rightarrow>
                          if \<not> truthy entries then ([End 400 text_plain ''Bad Request''], None)
                          else (case get_prop entries ''0'' of
                                  Inl e \<Rightarrow> ([], Some e)
                                | Inr entry \<Rightarrow>
                                    (case match_secret n createHmac req of
                                       Some r \<Rightarrow> r
                                     | None \<Rightarrow>
                                         (case entry_data entry of
                                            Inl e \<Rightarrow> ([], Some e)
                                          | Inr data \<Rightarrow>
                                              (case emit n (Str ''notified'') data of
                                                 Inl e \<Rightarrow> ([], Some e)
                                               | Inr event \<Rightarrow>
                                                   ([event, SendStatus 200], None))))))))"

definition onRequest :: "notifier \<Rightarrow> crypto \<Rightarrow> request \<Rightarrow> effect list \<times> exn option" where
  "onRequest n createHmac req =
     (if http_method req = ''GET'' then onGetRequest n req
      else if http_method req = ''POST'' then onPostRequest n createHmac req
      else ([SendStatus 403], None))"

text \<open>Reading a trace: the status codes of the responses, and the events.\<close>

fun statuses :: "effect list \<Rightarrow> nat list" where
  "statuses [] = []"
| "statuses (SendStatus c # es) = c # statuses es"
| "statuses (End c hs b # es) = c # statuses es"
| "statuses (Emit name data # es) = statuses es"

fun events :: "effect list \<Rightarrow> (jsval \<times> jsval) list" where
  "events [] = []"
| "events (Emit name data # es) = (name, data) # events es"
| "events (e # es) = events es"

section \<open>Example configurations and requests\<close>

definition secret_notifier :: notifier where
  "secret_notifier =
     \<lparr>hubCallback = ''http://example.com/cb'',
      hubUrl = ''https://pubsubhubbub.appspot.com/'',
      secret = Some ''s3cret'',
      error_listener = False\<rparr>"

definition open_notifier :: notifier where
  "open_notifier =
     \<lparr>hubCallback = ''http://example.com/cb'',
      hubUrl = ''https://pubsubhubbub.appspot.com/'',
      secret = None,
      error_listener = False\<rparr>"

text \<open>The same notifier after the host has registered a listener for \<open>error\<close>.\<close>

definition listening_notifier :: notifier where
  "listening_notifier = open_notifier\<lparr>error_listener := True\<rparr>"

text \<open>
  A stand-in crypto provider for the examples: it knows the one algorithm
  \<open>sha1\<close> and its digest is two lower-case hex digits made from the lengths of
  the key and of the data.  The theorems hold for every provider.
\<close>

definition lower_hex :: "nat \<Rightarrow> char" where
  "lower_hex d = ''0123456789abcdef'' ! d"

definition stub_digest :: "string \<Rightarrow> string \<Rightarrow> string" where
  "stub_digest key raw = [lower_hex (length key mod 16), lower_hex (length raw mod 16)]"

definition stub_createHmac :: crypto where
  "stub_createHmac algo key = (if algo = ''sha1'' then Some (stub_digest key) else None)"

definition example_entry :: jsval where
  "example_entry =
     Obj [(''id'', Arr [Str ''yt:video:VID1'']),
          (''yt:videoid'', Arr [Str ''VID1'']),
          (''yt:channelid'', Arr [Str ''UC123'']),
          (''title'', Arr [Str ''Hello'']),
          (''link'', Arr [Obj [(''$'', Obj [(''rel'', Str ''alternate''),
                                            (''href'', Str ''https://www.youtube.com/watch?v=VID1'')])]]),
          (''author'', Arr [Obj [(''name'', Arr [Str ''Chan'']),
                                 (''uri'', Arr [Str ''https://www.youtube.com/channel/UC123''])]]),
          (''published'', Arr [Str ''2020-01-01T00:00:00+00:00'']),
          (''updated'', Arr [Str ''2020-01-02T00:00:00+00:00''])]"

definition example_raw :: string where
  "example_raw = ''<feed><entry>...</entry></feed>''"

definition get_request :: "(string \<times> jsval) list \<Rightarrow> request" where
  "get_request q =
     \<lparr>http_method = ''GET'', query = q, headers = [], body = Obj [], rawBody = None\<rparr>"

definition post_request :: "(string \<times> string) list \<Rightarrow> jsval \<Rightarrow> string option \<Rightarrow> request" where
  "post_request hs b raw =
     \<lparr>http_method = ''POST'', query = [], headers = hs, body = b, rawBody = raw\<rparr>"

definition feed_with_entry :: "jsval \<Rightarrow> jsval" where
  "feed_with_entry entry = Obj [(''feed'', Obj [(''entry'', Arr [entry])])]"

definition deleted_feed :: jsval where
  "deleted_feed =
     Obj [(''feed'', Obj [(''at:deleted-entry'',
            Arr [Obj [(''$'', Obj [(''ref'', Str ''yt:video:VID1'')])]])])]"

text \<open>A feed element with its namespace attribute and no child.\<close>

definition empty_feed :: jsval where
  "empty_feed = Obj [(''feed'', Obj [(''$'', Obj [(''xmlns'', Str ''http://www.w3.org/2005/Atom'')])])]"

text \<open>A complete entry but for its \<open>title\<close>.\<close>

definition untitled_entry :: jsval where
  "untitled_entry =
     Obj [(''id'', Arr [Str ''yt:video:VID1'']),
          (''yt:videoid'', Arr [Str ''VID1'']),
          (''yt:channelid'', Arr [Str ''UC123'']),
          (''link'', Arr [Obj [(''$'', Obj [(''rel'', Str ''alternate''),
                                            (''href'', Str ''https://www.youtube.com/watch?v=VID1'')])]]),
          (''author'', Arr [Obj [(''name'', Arr [Str ''Chan'']),
                                 (''uri'', Arr [Str ''https://www.youtube.com/channel/UC123''])]]),
          (''published'', Arr [Str ''2020-01-01T00:00:00+00:00'']),
          (''updated'', Arr [Str ''2020-01-02T00:00:00+00:00''])]"

text \<open>A complete entry but for the \<open>href\<close> of its link.\<close>

definition bare_link_entry :: jsval where
  "bare_link_entry =
     Obj [(''yt:videoid'', Arr [Str ''VID1'']),
          (''yt:channelid'', Arr [Str ''UC123'']),
          (''title'', Arr [Str ''Hello'']),
          (''link'', Arr [Obj [(''$'', Obj [(''rel'', Str ''alternate'')])]]),
          (''author'', Arr [Obj [(''name'', Arr [Str ''Chan'']),
                                 (''uri'', Arr [Str ''https://www.youtube.com/channel/UC123''])]]),
          (''published'', Arr [Str ''2020-01-01T00:00:00+00:00'']),
          (''updated'', Arr [Str ''2020-01-02T00:00:00+00:00''])]"

section \<open>Entries with a missing element\<close>

text \<open>
  The places of an entry from which the handler reads a further property while it
  builds the event: the entry itself, each expected element, the first \<open>link\<close>
  and its attributes, the first \<open>author\<close> and its \<open>name\<close> and \<open>uri\<close>.
  An entry has a missing element when one of these places holds \<open>undefined\<close>.
\<close>

definition field_prefixes :: "string list list" where
  "field_prefixes =
     [[], [''yt:videoid''], [''title''], [''link''], [''link'', ''0''], [''link'', ''0'', ''$''],
      [''yt:channelid''], [''author''], [''author'', ''0''], [''author'', ''0'', ''name''],
      [''author'', ''0'', ''uri''], [''published''], [''updated'']]"

definition missing_field :: "jsval \<Rightarrow> bool" where
  "missing_field entry = list_ex (\<lambda>p. get_path entry p = Inr Undefined) field_prefixes"

text \<open>The eight reads that build the event, in the order of the object literal.\<close>

definition field_reads :: "string list list" where
  "field_reads =
     [[''yt:videoid'', ''0''], [''title'', ''0''], [''link'', ''0'', ''$'', ''href''],
      [''yt:channelid'', ''0''], [''author'', ''0'', ''name'', ''0''],
      [''author'', ''0'', ''uri'', ''0''], [''published'', ''0''], [''updated'', ''0'']]"

text \<open>
  An entry lacks an expected field when one of the eight reads does not give a value:
  it throws, or it gives \<open>undefined\<close>.  An event is partially populated when
  one of its eight fields is \<open>undefined\<close>.
\<close>

definition lacks_field :: "jsval \<Rightarrow> bool" where
  "lacks_field entry =
     list_ex (\<lambda>r. case get_path entry r of Inl e \<Rightarrow> True | Inr v \<Rightarrow> v = Undefined) field_reads"

definition event_fields :: "string list list" where
  "event_fields =
     [[''video'', ''id''], [''video'', ''title''], [''video'', ''link''],
      [''channel'', ''id''], [''channel'', ''name''], [''channel'', ''link''],
      [''published''], [''updated'']]"

definition partial_event :: "jsval \<Rightarrow> bool" where
  "partial_event data = list_ex (\<lambda>p. get_path data p = Inr Undefined) event_fields"

section \<open>Outbound subscription requests\<close>

text \<open>
  C1.  \<open>unsubscribe\<close> of a single channel id \<open>c\<close> does not fire the request
  that the one-element array \<open>[c]\<close> fires: the string branch calls
  \<open>this.makeRequest\<close>, which the class does not define, so a \<open>TypeError\<close> is
  thrown and nothing is posted.  The array branch, and the string branch of
  \<open>subscribe\<close>, call \<open>_makeRequest\<close> and fire one request.
\<close>

theorem unsubscribe_single_id_throws:
  "c \<noteq> [] \<Longrightarrow>
   unsubscribe n (Str c) = ([], Some TypeError)
   \<and> unsubscribe n (Arr [Str c]) = ([makeRequest n (Str c) ''unsubscribe''], None)
   \<and> subscribe n (Str c) = ([makeRequest n (Str c) ''subscribe''], None)"
  by (simp add: unsubscribe_def subscribe_def)

text \<open>C1 at the failing input \<open>unsubscribe('UC123')\<close>.\<close>

theorem unsubscribe_single_id_throws_witness:
  "unsubscribe secret_notifier (Str ''UC123'') = ([], Some TypeError)
   \<and> unsubscribe secret_notifier (Arr [Str ''UC123''])
       = ([makeRequest secret_notifier (Str ''UC123'') ''unsubscribe''], None)"
  using unsubscribe_single_id_throws [of "''UC123''" secret_notifier] by simp

subsection \<open>The form encoding keeps its separators apart\<close>

lemma of_char_bound: "(of_char c :: nat) < 256"
  by simp

lemma hex_digit_plain: "d < 16 \<Longrightarrow> hex_digit d \<notin> {CHR ''&'', CHR ''=''}"
proof -
  assume "d < 16"
  then have "d \<in> {0, 1, 2, 3, 4, 5, 6, 7, 8, 9, 10, 11, 12, 13, 14, 15}" by simp arith
  then show ?thesis by (auto simp: hex_digit_def)
qed

lemma percent_plain: "b < 256 \<Longrightarrow> CHR ''&'' \<notin> set (percent b) \<and> CHR ''='' \<notin> set (percent b)"
proof -
  assume "b < 256"
  then have "b div 16 < 16" "b mod 16 < 16" by simp_all
  then show ?thesis
    using hex_digit_plain [of "b div 16"] hex_digit_plain [of "b mod 16"]
    by (auto simp: percent_def)
qed

lemma unreserved_plain: "unreserved c \<Longrightarrow> c \<noteq> CHR ''&'' \<and> c \<noteq> CHR ''=''"
  by (auto simp: unreserved_def)

lemma escape_char_plain: "CHR ''&'' \<notin> set (escape_char c) \<and> CHR ''='' \<notin> set (escape_char c)"
proof -
  have b: "(of_char c :: nat) < 256" by (rule of_char_bound)
  then have "192 + (of_char c :: nat) div 64 < 256" "128 + (of_char c :: nat) mod 64 < 256"
    by arith+
  with b show ?thesis
    using percent_plain [of "of_char c"] percent_plain [of "192 + of_char c div 64"]
      percent_plain [of "128 + of_char c mod 64"] unreserved_plain [of c]
    by (auto simp: escape_char_def Let_def)
qed

lemma qs_escape_plain: "CHR ''&'' \<notin> set (qs_escape s) \<and> CHR ''='' \<notin> set (qs_escape s)"
  using escape_char_plain by (induction s) (auto simp: qs_escape_def)

lemma split_no_sep: "sep \<notin> set x \<Longrightarrow> split sep x = [x]"
  by (induction x) auto

lemma split_append_sep: "sep \<notin> set x \<Longrightarrow> split sep (x @ sep # rest) = x # split sep rest"
  by (induction x) auto

lemma split_join:
  "xs \<noteq> [] \<Longrightarrow> \<forall>x\<in>set xs. sep \<notin> set x \<Longrightarrow> split sep (join [sep] xs) = xs"
proof (induction "[sep]" xs rule: join.induct)
  case 1
  then show ?case by simp
next
  case (2 x)
  then show ?case by (simp add: split_no_sep)
next
  case (3 x y ys)
  then show ?case by (simp add: split_append_sep)
qed

lemma split_stringify:
  "data \<noteq> [] \<Longrightarrow>
   split CHR ''&'' (qs_stringify data) = map (\<lambda>(k, v). qs_escape k @ ''='' @ qs_escape v) data"
  unfolding qs_stringify_def
  by (rule split_join) (auto simp: qs_escape_plain)

text \<open>Decoding undoes the encoding: of a string, and of a whole form body.\<close>

lemma hex_val_digit: "d < 16 \<Longrightarrow> hex_val (hex_digit d) = d"
proof -
  assume "d < 16"
  then have "d \<in> {0, 1, 2, 3, 4, 5, 6, 7, 8, 9, 10, 11, 12, 13, 14, 15}" by simp arith
  then show ?thesis by (auto simp: hex_digit_def hex_val_def)
qed

lemma percent_decode_percent:
  "b < 256 \<Longrightarrow> percent_decode (percent b @ rest) = b # percent_decode rest"
proof -
  assume "b < 256"
  then have "b div 16 < 16" "b mod 16 < 16" by simp_all
  then show ?thesis by (simp add: percent_def hex_val_digit)
qed

lemma unreserved_ascii:
  "unreserved c \<Longrightarrow> c \<noteq> CHR ''%'' \<and> c \<noteq> CHR ''+'' \<and> (of_char c :: nat) < 128"
  by (auto simp: unreserved_def Let_def)

lemma escape_char_decode:
  "percent_decode (escape_char c @ rest) = utf8_bytes c @ percent_decode rest"
proof (cases "unreserved c")
  case True
  then show ?thesis using unreserved_ascii [of c]
    by (simp add: escape_char_def utf8_bytes_def)
next
  case False
  have b: "(of_char c :: nat) < 256" by simp
  then have "192 + (of_char c :: nat) div 64 < 256" "128 + (of_char c :: nat) mod 64 < 256"
    by arith+
  with b False show ?thesis
    by (simp add: escape_char_def utf8_bytes_def Let_def percent_decode_percent)
qed

lemma qs_escape_decode:
  "percent_decode (qs_escape s) = concat (map utf8_bytes s)"
  by (induction s) (simp_all add: qs_escape_def escape_char_decode)

lemma utf8_bytes_decode: "utf8_decode (utf8_bytes c @ bs) = c # utf8_decode bs"
proof (cases "(of_char c :: nat) < 128")
  case True
  then show ?thesis by (cases bs) (simp_all add: utf8_bytes_def)
next
  case False
  have "(of_char c :: nat) div 64 * 64 + of_char c mod 64 = of_char c" by simp
  with False show ?thesis by (simp add: utf8_bytes_def Let_def)
qed

lemma utf8_decode_bytes: "utf8_decode (concat (map utf8_bytes s)) = s"
  by (induction s) (simp_all add: utf8_bytes_decode)

lemma qs_unescape_escape: "qs_unescape (qs_escape s) = s"
  by (simp add: qs_unescape_def qs_escape_decode utf8_decode_bytes)

lemma qs_escape_inj: "qs_escape s = qs_escape t \<Longrightarrow> s = t"
  using qs_unescape_escape by metis

lemma field_name:
  "takeWhile (\<lambda>c. c \<noteq> CHR ''='') (qs_escape k @ CHR ''='' # qs_escape v) = qs_escape k"
proof -
  have "\<forall>x\<in>set (qs_escape k). x \<noteq> CHR ''=''" using qs_escape_plain [of k] by auto
  then show ?thesis by (simp add: takeWhile_append2)
qed

lemma field_value:
  "dropWhile (\<lambda>c. c \<noteq> CHR ''='') (qs_escape k @ CHR ''='' # qs_escape v)
     = CHR ''='' # qs_escape v"
proof -
  have "\<forall>x\<in>set (qs_escape k). x \<noteq> CHR ''=''" using qs_escape_plain [of k] by auto
  then show ?thesis by (simp add: dropWhile_append2)
qed

lemma qs_stringify_not_empty: "data \<noteq> [] \<Longrightarrow> qs_stringify data \<noteq> []"
proof (cases data)
  case Nil
  assume "data \<noteq> []"
  with Nil show ?thesis by simp
next
  case (Cons f fs)
  then show ?thesis by (cases fs) (simp_all add: qs_stringify_def case_prod_unfold)
qed

lemma form_decode_stringify: "data \<noteq> [] \<Longrightarrow> form_decode (qs_stringify data) = data"
  by (simp add: form_decode_def qs_stringify_not_empty split_stringify field_name field_value
      qs_unescape_escape case_prod_unfold comp_def)

lemma makeRequest_data_not_empty: "makeRequest_data n channel_id ty \<noteq> []"
  by (simp add: makeRequest_data_def Let_def split: option.splits)

text \<open>The body posted for a channel id with a code unit above 127 and an
  \<open>&\<close>.\<close>

lemma post_data_example:
  "post_data (makeRequest secret_notifier (Str [CHR ''U'', CHR ''C'', CHR 0xE9, CHR ''&'', CHR ''1'']) ''subscribe'')
   = ''hub.callback=http%3A%2F%2Fexample.com%2Fcb&hub.mode=subscribe&hub.topic=https%3A%2F%2Fwww.youtube.com%2Fxml%2Ffeeds%2Fvideos.xml%3Fchannel_id%3DUC%C3%A9%261&hub.secret=s3cret''"
  by code_simp

subsection \<open>The request built for one channel\<close>

text \<open>
  C8.  For every channel id \<open>c\<close> and mode \<open>i\<close>, the request that
  \<open>_makeRequest\<close> posts goes to \<open>hubUrl\<close> with the header
  \<open>Content-Type: application/x-www-form-urlencoded\<close>, and its body, decoded as a
  form, holds \<open>hub.callback = hubCallback\<close>, \<open>hub.mode = i\<close>,
  \<open>hub.topic = base_topic + c\<close>, and \<open>hub.secret = secret\<close> exactly when the
  secret is set (a non-empty string, as \<open>if (this.secret)\<close> tests it), in this
  order and nothing else.
\<close>

theorem makeRequest_request:
  "post_url (makeRequest n (Str c) i) = hubUrl n
   \<and> post_headers (makeRequest n (Str c) i)
       = [(''Content-Type'', ''application/x-www-form-urlencoded'')]
   \<and> form_decode (post_data (makeRequest n (Str c) i))
       = [(''hub.callback'', hubCallback n), (''hub.mode'', i), (''hub.topic'', base_topic @ c)]
         @ (case secret n of None \<Rightarrow> [] | Some s \<Rightarrow> if s \<noteq> [] then [(''hub.secret'', s)] else [])
   \<and> map_of (form_decode (post_data (makeRequest n (Str c) i))) ''hub.callback''
       = Some (hubCallback n)
   \<and> map_of (form_decode (post_data (makeRequest n (Str c) i))) ''hub.mode'' = Some i
   \<and> map_of (form_decode (post_data (makeRequest n (Str c) i))) ''hub.topic''
       = Some (base_topic @ c)
   \<and> map_of (form_decode (post_data (makeRequest n (Str c) i))) ''hub.secret''
       = (if secret_set n then secret n else None)"
proof -
  have "form_decode (post_data (makeRequest n (Str c) i)) = makeRequest_data n (Str c) i"
    by (simp add: makeRequest_def form_decode_stringify makeRequest_data_not_empty)
  then show ?thesis
    by (simp add: makeRequest_def makeRequest_data_def secret_set_def truthy_opt_def Let_def
        split: option.splits)
qed

text \<open>C8 on a notifier with a secret and on one without.\<close>

theorem makeRequest_request_witness:
  "post_url (makeRequest secret_notifier (Str ''UC123'') ''subscribe'')
     = ''https://pubsubhubbub.appspot.com/''
   \<and> form_decode (post_data (makeRequest secret_notifier (Str ''UC123'') ''subscribe''))
     = [(''hub.callback'', ''http://example.com/cb''),
        (''hub.mode'', ''subscribe''),
        (''hub.topic'', ''https://www.youtube.com/xml/feeds/videos.xml?channel_id=UC123''),
        (''hub.secret'', ''s3cret'')]
   \<and> form_decode (post_data (makeRequest open_notifier (Str ''UC123'') ''unsubscribe''))
     = [(''hub.callback'', ''http://example.com/cb''),
        (''hub.mode'', ''unsubscribe''),
        (''hub.topic'', ''https://www.youtube.com/xml/feeds/videos.xml?channel_id=UC123'')]
   \<and> map_of (form_decode (post_data (makeRequest open_notifier (Str ''UC123'') ''unsubscribe'')))
        ''hub.secret'' = None"
  using makeRequest_request [of secret_notifier "''UC123''" "''subscribe''"]
    makeRequest_request [of open_notifier "''UC123''" "''unsubscribe''"]
  by (simp add: secret_notifier_def open_notifier_def secret_set_def truthy_opt_def base_topic_def)

text \<open>
  C9, as stated, fails on the empty collection: \<open>subscribe([])\<close> and
  \<open>unsubscribe([])\<close> throw nothing (and fire nothing).
\<close>

theorem empty_array_accepted:
  "subscribe secret_notifier (Arr []) = ([], None)
   \<and> unsubscribe secret_notifier (Arr []) = ([], None)"
  by (simp add: subscribe_def unsubscribe_def)

text \<open>
  C9, amended.  \<open>subscribe\<close> and \<open>unsubscribe\<close> throw the argument error, having
  fired no request, exactly when the input is absent, is the empty string, or is
  neither a string nor an array.  An array is never refused, whether it is empty or
  holds values that are not strings.
\<close>

theorem channels_error_iff:
  "(subscribe n channels = ([], Some channels_error))
     = (channels = Undefined \<or> channels = Str [] \<or> (\<exists>kvs. channels = Obj kvs))
   \<and> (unsubscribe n channels = ([], Some channels_error))
     = (channels = Undefined \<or> channels = Str [] \<or> (\<exists>kvs. channels = Obj kvs))"
  by (cases channels) (auto simp: subscribe_def unsubscribe_def channels_error_def)

text \<open>C9, amended, on an absent input, the empty string, an object, and an array of
  one object.\<close>

theorem channels_error_iff_witness:
  "subscribe open_notifier Undefined = ([], Some channels_error)
   \<and> unsubscribe open_notifier (Str []) = ([], Some channels_error)
   \<and> subscribe open_notifier (Obj [(''id'', Str ''UC123'')]) = ([], Some channels_error)
   \<and> unsubscribe open_notifier (Arr [Obj []]) \<noteq> ([], Some channels_error)"
  using channels_error_iff [of open_notifier Undefined]
    channels_error_iff [of open_notifier "Str []"]
    channels_error_iff [of open_notifier "Obj [(''id'', Str ''UC123'')]"]
    channels_error_iff [of open_notifier "Arr [Obj []]"]
  by simp

section \<open>Intent verification (GET)\<close>

lemma emit_other: "name \<noteq> Str ''error'' \<Longrightarrow> emit n name data = Inr (Emit name data)"
  by (simp add: emit_def)

lemma emit_listened: "error_listener n \<Longrightarrow> emit n name data = Inr (Emit name data)"
  by (simp add: emit_def)

lemma emit_unhandled:
  "\<not> error_listener n \<Longrightarrow> emit n (Str ''error'') data = Inl UnhandledError"
  by (simp add: emit_def)

lemma emit_cases:
  "emit n name data = Inl UnhandledError \<or> emit n name data = Inr (Emit name data)"
  by (simp add: emit_def)

text \<open>
  C5, as stated, fails on two requests that lack neither parameter.  With an empty
  \<open>hub.topic\<close> (\<open>?hub.topic=&hub.mode=subscribe&hub.challenge=abc\<close>) the response
  is 400, not 200 with body \<open>abc\<close>.  With \<open>hub.challenge\<close> given twice, its
  value is an array, \<open>res.end\<close> throws on it, and the handler sends no response.
\<close>

theorem empty_topic_or_repeated_challenge:
  "onGetRequest open_notifier (get_request [(''hub.topic'', Str []), (''hub.mode'', Str ''subscribe''),
                              (''hub.challenge'', Str ''abc'')])
     = ([End 400 text_plain ''Bad Request''], None)
   \<and> onGetRequest open_notifier (get_request [(''hub.topic'', Str (base_topic @ ''UC123'')),
                                (''hub.mode'', Str ''subscribe''),
                                (''hub.challenge'', Arr [Str ''abc'', Str ''xyz''])])
     = ([], Some TypeError)"
  by (simp add: onGetRequest_def get_request_def own_prop_def)

text \<open>
  C5, amended.  If \<open>hub.topic\<close> or \<open>hub.mode\<close> is absent or empty, the
  handler responds 400 with the plain-text body \<open>Bad Request\<close> and emits no event.
  Otherwise, when \<open>hub.challenge\<close> is absent or a single value, the first thing the
  handler does is respond 200 with the plain-text body equal to the
  \<open>hub.challenge\<close> value (no body when it is absent); whatever follows is no
  response, so an event is emitted only after the response was sent.
\<close>

theorem onGetRequest_response:
  "(\<not> truthy (own_prop (query req) ''hub.topic'') \<or> \<not> truthy (own_prop (query req) ''hub.mode'')
      \<longrightarrow> onGetRequest n req = ([End 400 text_plain ''Bad Request''], None))
   \<and> (truthy (own_prop (query req) ''hub.topic'') \<and> truthy (own_prop (query req) ''hub.mode'')
        \<and> (own_prop (query req) ''hub.challenge'' = Undefined \<and> b = []
             \<or> own_prop (query req) ''hub.challenge'' = Str b)
      \<longrightarrow> (\<exists>rest. fst (onGetRequest n req) = End 200 text_plain b # rest \<and> statuses rest = []))"
proof (intro conjI impI)
  assume "\<not> truthy (own_prop (query req) ''hub.topic'') \<or> \<not> truthy (own_prop (query req) ''hub.mode'')"
  then show "onGetRequest n req = ([End 400 text_plain ''Bad Request''], None)"
    by (auto simp: onGetRequest_def)
next
  assume a: "truthy (own_prop (query req) ''hub.topic'') \<and> truthy (own_prop (query req) ''hub.mode'')
        \<and> (own_prop (query req) ''hub.challenge'' = Undefined \<and> b = []
             \<or> own_prop (query req) ''hub.challenge'' = Str b)"
  then have sent: "res_end 200 text_plain (own_prop (query req) ''hub.challenge'') = Inr (End 200 text_plain b)"
    by auto
  show "\<exists>rest. fst (onGetRequest n req) = End 200 text_plain b # rest \<and> statuses rest = []"
  proof (cases "js_replace (own_prop (query req) ''hub.topic'') base_topic []")
    case (Inl e)
    with a sent show ?thesis by (simp add: onGetRequest_def)
  next
    case (Inr channel)
    with a sent show ?thesis by (simp add: onGetRequest_def Let_def emit_def)
  qed
qed

text \<open>C5, amended, on a query without \<open>hub.topic\<close> and on a complete one.\<close>

theorem onGetRequest_response_witness:
  "onGetRequest open_notifier (get_request [(''hub.mode'', Str ''subscribe'')])
     = ([End 400 text_plain ''Bad Request''], None)
   \<and> (\<exists>rest. fst (onGetRequest open_notifier (get_request [(''hub.mode'', Str ''subscribe''),
          (''hub.topic'', Str (base_topic @ ''UC123'')), (''hub.challenge'', Str ''abc'')]))
        = End 200 text_plain ''abc'' # rest \<and> statuses rest = [])"
  using onGetRequest_response [where req = "get_request [(''hub.mode'', Str ''subscribe'')]"
      and b = "[]" and n = open_notifier]
    onGetRequest_response [where req = "get_request [(''hub.mode'', Str ''subscribe''),
          (''hub.topic'', Str (base_topic @ ''UC123'')), (''hub.challenge'', Str ''abc'')]"
      and b = "''abc''" and n = open_notifier]
  by (simp add: get_request_def own_prop_def base_topic_def)

text \<open>
  C6.  When the hub sends \<open>hub.lease_seconds\<close> with \<open>hub.mode=unsubscribe\<close>,
  the emitted \<open>unsubscribe\<close> event carries \<open>lease_seconds\<close>.  The source's
  comment says the field is returned if the mode is subscribe; the code tests only that
  the parameter is there.
\<close>

theorem unsubscribe_event_carries_lease:
  assumes "own_prop (query req) ''hub.mode'' = Str ''unsubscribe''"
    and "own_prop (query req) ''hub.topic'' = Str t" and "t \<noteq> []"
    and "own_prop (query req) ''hub.challenge'' = Str b"
    and "truthy (own_prop (query req) ''hub.lease_seconds'')"
  shows "onGetRequest n req
         = ([End 200 text_plain b,
             Emit (Str ''unsubscribe'')
               (Obj [(''type'', Str ''unsubscribe''),
                     (''channel'', Str (replace_first base_topic [] t)),
                     (''lease_seconds'', own_prop (query req) ''hub.lease_seconds'')])], None)"
  using assms by (simp add: onGetRequest_def emit_other)

text \<open>C6 at the failing input
  \<open>?hub.mode=unsubscribe&hub.topic=...channel_id=UC123&hub.challenge=abc&hub.lease_seconds=100\<close>.\<close>

theorem unsubscribe_event_carries_lease_witness:
  "onGetRequest open_notifier (get_request [(''hub.mode'', Str ''unsubscribe''),
       (''hub.topic'', Str (base_topic @ ''UC123'')), (''hub.challenge'', Str ''abc''),
       (''hub.lease_seconds'', Str ''100'')])
   = ([End 200 text_plain ''abc'',
       Emit (Str ''unsubscribe'')
         (Obj [(''type'', Str ''unsubscribe''), (''channel'', Str ''UC123''),
               (''lease_seconds'', Str ''100'')])], None)"
  using unsubscribe_event_carries_lease [where req = "get_request [(''hub.mode'', Str ''unsubscribe''),
       (''hub.topic'', Str (base_topic @ ''UC123'')), (''hub.challenge'', Str ''abc''),
       (''hub.lease_seconds'', Str ''100'')]" and t = "base_topic @ ''UC123''" and b = "''abc''"
      and n = open_notifier]
  by (simp add: get_request_def own_prop_def base_topic_def)

text \<open>
  C10, as stated, fails on three requests that have both parameters.  With the empty
  string as \<open>hub.mode\<close> the handler responds 400 and emits nothing.  With
  \<open>hub.topic\<close> given twice, its value is an array, which has no \<open>replace\<close>:
  the handler responds 200 and then throws, and no event is emitted.  With
  \<open>hub.mode=error\<close> and no \<open>error\<close> listener, \<open>emit\<close> throws after the
  200 and no listener is given an event.
\<close>

theorem empty_mode_or_repeated_topic:
  "onGetRequest open_notifier
      (get_request [(''hub.topic'', Str (base_topic @ ''UC123'')), (''hub.mode'', Str []),
                    (''hub.challenge'', Str ''abc'')])
     = ([End 400 text_plain ''Bad Request''], None)
   \<and> onGetRequest open_notifier
        (get_request [(''hub.topic'', Arr [Str (base_topic @ ''UC123''),
                                           Str (base_topic @ ''UC456'')]),
                      (''hub.mode'', Str ''subscribe''),
                      (''hub.challenge'', Str ''abc'')])
     = ([End 200 text_plain ''abc''], Some TypeError)
   \<and> onGetRequest open_notifier
        (get_request [(''hub.topic'', Str (base_topic @ ''UC123'')), (''hub.mode'', Str ''error''),
                      (''hub.challenge'', Str ''abc'')])
     = ([End 200 text_plain ''abc''], Some UnhandledError)"
  by (simp add: onGetRequest_def get_request_def own_prop_def emit_def open_notifier_def)

text \<open>
  C10, amended.  For every GET request whose \<open>hub.topic\<close> is a non-empty string,
  whose \<open>hub.mode\<close> is not empty and whose \<open>hub.challenge\<close> is absent or a
  single value, the handler responds 200 and nothing else.  Unless the mode is the
  string \<open>error\<close> while the host has no \<open>error\<close> listener, it then emits
  exactly one event and returns; the event's name and its \<open>type\<close> field are the
  raw \<open>hub.mode\<close> value, whatever it is (nothing compares it with
  \<open>subscribe\<close> or \<open>unsubscribe\<close>), and its \<open>channel\<close> is \<open>hub.topic\<close>
  with the first occurrence of the base topic removed.  In the excepted case
  \<open>emit\<close> throws after the response and no event is emitted.
\<close>

theorem onGetRequest_event:
  assumes "own_prop (query req) ''hub.topic'' = Str t" and "t \<noteq> []"
    and "truthy (own_prop (query req) ''hub.mode'')"
    and "own_prop (query req) ''hub.challenge'' = Undefined
         \<or> own_prop (query req) ''hub.challenge'' = Str b"
  shows "statuses (fst (onGetRequest n req)) = [200]
         \<and> (if own_prop (query req) ''hub.mode'' = Str ''error'' \<and> \<not> error_listener n
            then events (fst (onGetRequest n req)) = []
                 \<and> snd (onGetRequest n req) = Some UnhandledError
            else (\<exists>data.
                    events (fst (onGetRequest n req))
                      = [(own_prop (query req) ''hub.mode'', Obj data)]
                    \<and> own_prop data ''type'' = own_prop (query req) ''hub.mode''
                    \<and> own_prop data ''channel'' = Str (replace_first base_topic [] t))
                 \<and> snd (onGetRequest n req) = None)"
  using assms by (auto simp: onGetRequest_def Let_def own_prop_def emit_def)

text \<open>C10, amended: a mode that is neither \<open>subscribe\<close> nor \<open>unsubscribe\<close>;
  the mode \<open>error\<close> without and with an \<open>error\<close> listener.\<close>

theorem onGetRequest_event_witness:
  "(\<exists>data. events (fst (onGetRequest open_notifier (get_request [(''hub.mode'', Str ''publish''),
          (''hub.topic'', Str (base_topic @ ''UC123'')), (''hub.challenge'', Str ''abc'')])))
        = [(Str ''publish'', Obj data)]
      \<and> own_prop data ''type'' = Str ''publish''
      \<and> own_prop data ''channel'' = Str ''UC123'')
   \<and> statuses (fst (onGetRequest open_notifier (get_request [(''hub.mode'', Str ''publish''),
          (''hub.topic'', Str (base_topic @ ''UC123'')), (''hub.challenge'', Str ''abc'')]))) = [200]
   \<and> snd (onGetRequest open_notifier (get_request [(''hub.mode'', Str ''error''),
          (''hub.topic'', Str (base_topic @ ''UC123'')), (''hub.challenge'', Str ''abc'')]))
       = Some UnhandledError
   \<and> (\<exists>data. events (fst (onGetRequest listening_notifier (get_request [(''hub.mode'', Str ''error''),
          (''hub.topic'', Str (base_topic @ ''UC123'')), (''hub.challenge'', Str ''abc'')])))
        = [(Str ''error'', Obj data)])"
  using onGetRequest_event [where req = "get_request [(''hub.mode'', Str ''publish''),
          (''hub.topic'', Str (base_topic @ ''UC123'')), (''hub.challenge'', Str ''abc'')]"
          and t = "base_topic @ ''UC123''" and b = "''abc''" and n = open_notifier]
    onGetRequest_event [where req = "get_request [(''hub.mode'', Str ''error''),
          (''hub.topic'', Str (base_topic @ ''UC123'')), (''hub.challenge'', Str ''abc'')]"
          and t = "base_topic @ ''UC123''" and b = "''abc''" and n = open_notifier]
    onGetRequest_event [where req = "get_request [(''hub.mode'', Str ''error''),
          (''hub.topic'', Str (base_topic @ ''UC123'')), (''hub.challenge'', Str ''abc'')]"
          and t = "base_topic @ ''UC123''" and b = "''abc''" and n = listening_notifier]
  by (auto simp: get_request_def own_prop_def base_topic_def open_notifier_def
      listening_notifier_def)

section \<open>Notification delivery (POST)\<close>

subsection \<open>Property reads that throw\<close>

lemma get_prop_error: "get_prop v k = Inl e \<Longrightarrow> e = TypeError \<and> v = Undefined"
  by (cases v) auto

lemma get_path_error: "get_path v p = Inl e \<Longrightarrow> e = TypeError"
  by (induction v p rule: get_path.induct) (auto split: sum.splits dest: get_prop_error)

lemma get_path_append:
  "get_path v (p @ q) = (case get_path v p of Inl e \<Rightarrow> Inl e | Inr w \<Rightarrow> get_path w q)"
  by (induction v p rule: get_path.induct) (auto split: sum.splits)

lemma read_fails:
  "get_path v p = Inr Undefined \<Longrightarrow> get_path v (p @ k # ks) = Inl TypeError"
  by (simp add: get_path_append)

lemma entry_data_error: "entry_data entry = Inl e \<Longrightarrow> e = TypeError"
  unfolding entry_data_def
  by (auto simp del: get_path.simps split: sum.splits dest: get_path_error)

lemma entry_data_fails:
  assumes "get_path entry r = Inl e" and "r \<in> set field_reads"
  shows "entry_data entry = Inl TypeError"
proof (cases "entry_data entry")
  case (Inl e')
  then show ?thesis by (simp add: entry_data_error)
next
  case (Inr data)
  then have False using assms unfolding entry_data_def
    by (auto simp: field_reads_def simp del: get_path.simps split: sum.splits)
  then show ?thesis ..
qed

lemma place_is_read: "p \<in> set field_prefixes \<Longrightarrow> \<exists>k ks. p @ k # ks \<in> set field_reads"
  unfolding field_prefixes_def field_reads_def by auto blast+

lemma missing_field_fails:
  assumes "missing_field entry"
  shows "entry_data entry = Inl TypeError"
proof -
  from assms obtain p where p: "p \<in> set field_prefixes" and u: "get_path entry p = Inr Undefined"
    unfolding missing_field_def list_ex_iff by (elim bexE)
  from place_is_read [OF p] obtain k ks where r: "p @ k # ks \<in> set field_reads"
    by (elim exE)
  have "get_path entry (p @ k # ks) = Inl TypeError"
    using u by (rule read_fails)
  then show ?thesis using r by (rule entry_data_fails)
qed

text \<open>Conversely, a read throws only at a place that holds \<open>undefined\<close>, so the
  event is built exactly when no element is missing.\<close>

lemma get_path_snoc_error:
  "get_path v (p @ [k]) = Inl e \<Longrightarrow> get_path v p = Inr Undefined \<or> (\<exists>e'. get_path v p = Inl e')"
  by (auto simp: get_path_append split: sum.splits dest: get_prop_error)

lemma get_path_error_place:
  "get_path v p = Inl e \<Longrightarrow> \<exists>q. strict_prefix q p \<and> get_path v q = Inr Undefined"
proof (induction p arbitrary: e rule: rev_induct)
  case Nil
  then show ?case by simp
next
  case (snoc k p)
  from snoc.prems have "get_path v p = Inr Undefined \<or> (\<exists>e'. get_path v p = Inl e')"
    by (rule get_path_snoc_error)
  then show ?case
  proof
    assume "get_path v p = Inr Undefined"
    then show ?thesis by (intro exI [of _ p]) (simp add: strict_prefix_def)
  next
    assume "\<exists>e'. get_path v p = Inl e'"
    then obtain q where "strict_prefix q p" and "get_path v q = Inr Undefined"
      using snoc.IH by blast
    then show ?thesis
      by (intro exI [of _ q]) (auto simp: strict_prefix_def)
  qed
qed

lemma strict_prefix_listed: "strict_prefix q r \<Longrightarrow> q \<in> set (prefixes r) \<and> q \<noteq> r"
  by (simp add: in_set_prefixes strict_prefix_def)

lemma strict_prefix_places:
  assumes "strict_prefix q r" and "r \<in> set field_reads"
  shows "q \<in> set field_prefixes"
proof -
  from assms(2) have
    "r = [''yt:videoid'', ''0''] \<or> r = [''title'', ''0''] \<or> r = [''link'', ''0'', ''$'', ''href'']
     \<or> r = [''yt:channelid'', ''0''] \<or> r = [''author'', ''0'', ''name'', ''0'']
     \<or> r = [''author'', ''0'', ''uri'', ''0''] \<or> r = [''published'', ''0'']
     \<or> r = [''updated'', ''0'']"
    by (simp add: field_reads_def)
  then show ?thesis
  proof (elim disjE)
    assume "r = [''yt:videoid'', ''0'']"
    with strict_prefix_listed [OF assms(1)] show ?thesis by (auto simp: field_prefixes_def)
  next
    assume "r = [''title'', ''0'']"
    with strict_prefix_listed [OF assms(1)] show ?thesis by (auto simp: field_prefixes_def)
  next
    assume "r = [''link'', ''0'', ''$'', ''href'']"
    with strict_prefix_listed [OF assms(1)] show ?thesis by (auto simp: field_prefixes_def)
  next
    assume "r = [''yt:channelid'', ''0'']"
    with strict_prefix_listed [OF assms(1)] show ?thesis by (auto simp: field_prefixes_def)
  next
    assume "r = [''author'', ''0'', ''name'', ''0'']"
    with strict_prefix_listed [OF assms(1)] show ?thesis by (auto simp: field_prefixes_def)
  next
    assume "r = [''author'', ''0'', ''uri'', ''0'']"
    with strict_prefix_listed [OF assms(1)] show ?thesis by (auto simp: field_prefixes_def)
  next
    assume "r = [''published'', ''0'']"
    with strict_prefix_listed [OF assms(1)] show ?thesis by (auto simp: field_prefixes_def)
  next
    assume "r = [''updated'', ''0'']"
    with strict_prefix_listed [OF assms(1)] show ?thesis by (auto simp: field_prefixes_def)
  qed
qed

lemma entry_data_reads:
  assumes "get_path entry [''yt:videoid'', ''0''] = Inr v1"
    and "get_path entry [''title'', ''0''] = Inr v2"
    and "get_path entry [''link'', ''0'', ''$'', ''href''] = Inr v3"
    and "get_path entry [''yt:channelid'', ''0''] = Inr v4"
    and "get_path entry [''author'', ''0'', ''name'', ''0''] = Inr v5"
    and "get_path entry [''author'', ''0'', ''uri'', ''0''] = Inr v6"
    and "get_path entry [''published'', ''0''] = Inr v7"
    and "get_path entry [''updated'', ''0''] = Inr v8"
  shows "entry_data entry =
     Inr (Obj [(''video'', Obj [(''id'', v1), (''title'', v2), (''link'', v3)]),
               (''channel'', Obj [(''id'', v4), (''name'', v5), (''link'', v6)]),
               (''published'', v7), (''updated'', v8)])"
  using assms by (simp add: entry_data_def del: get_path.simps)

lemma entry_data_read_fails:
  assumes "entry_data entry = Inl e"
  shows "\<exists>r e'. get_path entry r = Inl e' \<and> r \<in> set field_reads"
proof (rule ccontr)
  assume n: "\<not> ?thesis"
  have ok: "\<exists>w. get_path entry r = Inr w" if "r \<in> set field_reads" for r
    using n that by (cases "get_path entry r") auto
  have "\<exists>w. get_path entry [''yt:videoid'', ''0''] = Inr w"
    by (rule ok) (simp add: field_reads_def)
  then obtain v1 where 1: "get_path entry [''yt:videoid'', ''0''] = Inr v1" ..
  have "\<exists>w. get_path entry [''title'', ''0''] = Inr w"
    by (rule ok) (simp add: field_reads_def)
  then obtain v2 where 2: "get_path entry [''title'', ''0''] = Inr v2" ..
  have "\<exists>w. get_path entry [''link'', ''0'', ''$'', ''href''] = Inr w"
    by (rule ok) (simp add: field_reads_def)
  then obtain v3 where 3: "get_path entry [''link'', ''0'', ''$'', ''href''] = Inr v3" ..
  have "\<exists>w. get_path entry [''yt:channelid'', ''0''] = Inr w"
    by (rule ok) (simp add: field_reads_def)
  then obtain v4 where 4: "get_path entry [''yt:channelid'', ''0''] = Inr v4" ..
  have "\<exists>w. get_path entry [''author'', ''0'', ''name'', ''0''] = Inr w"
    by (rule ok) (simp add: field_reads_def)
  then obtain v5 where 5: "get_path entry [''author'', ''0'', ''name'', ''0''] = Inr v5" ..
  have "\<exists>w. get_path entry [''author'', ''0'', ''uri'', ''0''] = Inr w"
    by (rule ok) (simp add: field_reads_def)
  then obtain v6 where 6: "get_path entry [''author'', ''0'', ''uri'', ''0''] = Inr v6" ..
  have "\<exists>w. get_path entry [''published'', ''0''] = Inr w"
    by (rule ok) (simp add: field_reads_def)
  then obtain v7 where 7: "get_path entry [''published'', ''0''] = Inr v7" ..
  have "\<exists>w. get_path entry [''updated'', ''0''] = Inr w"
    by (rule ok) (simp add: field_reads_def)
  then obtain v8 where 8: "get_path entry [''updated'', ''0''] = Inr v8" ..
  from entry_data_reads [OF 1 2 3 4 5 6 7 8] assms show False by simp
qed

lemma entry_data_complete:
  assumes "entry_data entry = Inl e"
  shows "missing_field entry"
proof -
  from entry_data_read_fails [OF assms] obtain r e'
    where r: "get_path entry r = Inl e'" and m: "r \<in> set field_reads"
    by (elim exE conjE)
  from get_path_error_place [OF r] obtain q
    where q: "strict_prefix q r" and u: "get_path entry q = Inr Undefined"
    by (elim exE conjE)
  from q m have "q \<in> set field_prefixes" by (rule strict_prefix_places)
  with u show ?thesis unfolding missing_field_def list_ex_iff by (intro bexI [of _ q])
qed

lemma missing_field_iff: "missing_field entry = (entry_data entry = Inl TypeError)"
  using missing_field_fails [of entry] entry_data_complete [of entry TypeError] by (intro iffI)

lemma missing_field_lacks: "missing_field entry \<Longrightarrow> lacks_field entry"
proof -
  assume "missing_field entry"
  then have "entry_data entry = Inl TypeError" by (rule missing_field_fails)
  from entry_data_read_fails [OF this] obtain r e'
    where "get_path entry r = Inl e'" and "r \<in> set field_reads"
    by (elim exE conjE)
  then show ?thesis unfolding lacks_field_def list_ex_iff by (intro bexI [of _ r]) simp_all
qed

lemma event_of_reads:
  "partial_event (Obj [(''video'', Obj [(''id'', v1), (''title'', v2), (''link'', v3)]),
               (''channel'', Obj [(''id'', v4), (''name'', v5), (''link'', v6)]),
               (''published'', v7), (''updated'', v8)])
   = (v1 = Undefined \<or> v2 = Undefined \<or> v3 = Undefined \<or> v4 = Undefined
      \<or> v5 = Undefined \<or> v6 = Undefined \<or> v7 = Undefined \<or> v8 = Undefined)"
  by (simp add: partial_event_def event_fields_def own_prop_def)

lemma lacking_not_missing:
  assumes "lacks_field entry" and "\<not> missing_field entry"
  shows "\<exists>data. entry_data entry = Inr data \<and> partial_event data"
proof -
  have ok: "\<exists>w. get_path entry r = Inr w" if "r \<in> set field_reads" for r
  proof (cases "get_path entry r")
    case (Inl e)
    then have "entry_data entry = Inl TypeError" using that by (rule entry_data_fails)
    then have "missing_field entry" by (rule entry_data_complete)
    with assms(2) show ?thesis ..
  next
    case (Inr w)
    then show ?thesis by simp
  qed
  have "\<exists>w. get_path entry [''yt:videoid'', ''0''] = Inr w"
    by (rule ok) (simp add: field_reads_def)
  then obtain v1 where 1: "get_path entry [''yt:videoid'', ''0''] = Inr v1" ..
  have "\<exists>w. get_path entry [''title'', ''0''] = Inr w"
    by (rule ok) (simp add: field_reads_def)
  then obtain v2 where 2: "get_path entry [''title'', ''0''] = Inr v2" ..
  have "\<exists>w. get_path entry [''link'', ''0'', ''$'', ''href''] = Inr w"
    by (rule ok) (simp add: field_reads_def)
  then obtain v3 where 3: "get_path entry [''link'', ''0'', ''$'', ''href''] = Inr v3" ..
  have "\<exists>w. get_path entry [''yt:channelid'', ''0''] = Inr w"
    by (rule ok) (simp add: field_reads_def)
  then obtain v4 where 4: "get_path entry [''yt:channelid'', ''0''] = Inr v4" ..
  have "\<exists>w. get_path entry [''author'', ''0'', ''name'', ''0''] = Inr w"
    by (rule ok) (simp add: field_reads_def)
  then obtain v5 where 5: "get_path entry [''author'', ''0'', ''name'', ''0''] = Inr v5" ..
  have "\<exists>w. get_path entry [''author'', ''0'', ''uri'', ''0''] = Inr w"
    by (rule ok) (simp add: field_reads_def)
  then obtain v6 where 6: "get_path entry [''author'', ''0'', ''uri'', ''0''] = Inr v6" ..
  have "\<exists>w. get_path entry [''published'', ''0''] = Inr w"
    by (rule ok) (simp add: field_reads_def)
  then obtain v7 where 7: "get_path entry [''published'', ''0''] = Inr v7" ..
  have "\<exists>w. get_path entry [''updated'', ''0''] = Inr w"
    by (rule ok) (simp add: field_reads_def)
  then obtain v8 where 8: "get_path entry [''updated'', ''0''] = Inr v8" ..
  have u: "v1 = Undefined \<or> v2 = Undefined \<or> v3 = Undefined \<or> v4 = Undefined
      \<or> v5 = Undefined \<or> v6 = Undefined \<or> v7 = Undefined \<or> v8 = Undefined"
    using assms(1) 1 2 3 4 5 6 7 8
    by (simp add: lacks_field_def field_reads_def del: get_path.simps)
  from u have "partial_event (Obj [(''video'', Obj [(''id'', v1), (''title'', v2), (''link'', v3)]),
               (''channel'', Obj [(''id'', v4), (''name'', v5), (''link'', v6)]),
               (''published'', v7), (''updated'', v8)])"
    by (simp only: event_of_reads)
  with entry_data_reads [OF 1 2 3 4 5 6 7 8] show ?thesis by simp
qed

lemma truthy_index: "truthy es \<Longrightarrow> \<exists>entry. get_prop es ''0'' = Inr entry"
  by (cases es) auto

subsection \<open>The signature block\<close>

lemma match_secret_bad_algorithm:
  assumes "secret n = Some key" and "key \<noteq> []"
    and "map_of (headers req) ''x-hub-signature'' = Some h"
    and "createHmac (algo_of h) key = None"
  shows "match_secret n createHmac req = Some ([SendStatus 403], None)"
  using assms by (simp add: match_secret_def)

lemma match_secret_mismatch:
  assumes "secret n = Some key" and "key \<noteq> []"
    and "map_of (headers req) ''x-hub-signature'' = Some h"
    and "createHmac (algo_of h) key = Some hmac" and "rawBody req = Some raw"
    and "toLowerCase (hmac raw) \<noteq> signature_of h"
  shows "match_secret n createHmac req = Some ([SendStatus 200], None)"
  using assms by (simp add: match_secret_def)

lemma match_secret_passes:
  assumes "\<not> secret_set n
           \<or> (secret n = Some key \<and> map_of (headers req) ''x-hub-signature'' = Some h
              \<and> createHmac (algo_of h) key = Some hmac \<and> rawBody req = Some raw
              \<and> toLowerCase (hmac raw) = signature_of h)"
  shows "match_secret n createHmac req = None"
  using assms by (auto simp: match_secret_def secret_set_def truthy_opt_def split: option.splits)

text \<open>The header's parts: \<open>algo\<close> is what stands before the first \<open>=\<close>,
  \<open>signature\<close> what stands after the last one, both lower-cased; a header without
  \<open>=\<close> is all algorithm and has the empty signature.\<close>

lemma split_not_empty: "split sep s \<noteq> []"
  by (induction s) (auto split: list.splits)

lemma last_split_cons: "sep \<in> set s \<Longrightarrow> last (split sep (c # s)) = last (split sep s)"
proof (cases "c = sep")
  case True
  then show ?thesis by (simp add: split_not_empty)
next
  case False
  assume "sep \<in> set s"
  then have "length (split sep s) \<ge> 2"
    by (induction s) (auto split: list.splits simp: split_not_empty Suc_le_eq)
  then obtain w v ws where "split sep s = w # v # ws"
    by (cases "split sep s"; cases "tl (split sep s)") auto
  with False show ?thesis by simp
qed

lemma last_split: "sep \<notin> set s \<Longrightarrow> last (split sep (a @ sep # s)) = s"
proof (induction a)
  case Nil
  then show ?case by (simp add: split_no_sep split_not_empty)
next
  case (Cons c a)
  have "last (split sep (c # (a @ sep # s))) = last (split sep (a @ sep # s))"
    by (rule last_split_cons) simp
  with Cons show ?case by simp
qed

lemma algo_of_prefix:
  "CHR ''='' \<notin> set a \<Longrightarrow> algo_of (a @ CHR ''='' # rest) = toLowerCase a"
  by (simp add: algo_of_def split_append_sep or_empty_def)

lemma signature_of_suffix:
  "CHR ''='' \<notin> set s \<Longrightarrow> signature_of (a @ CHR ''='' # s) = toLowerCase s"
proof -
  assume s: "CHR ''='' \<notin> set s"
  have l: "length (split CHR ''='' (a @ CHR ''='' # s)) \<ge> 2"
    by (induction a) (auto split: list.splits simp: split_not_empty Suc_le_eq)
  then obtain w v ws where e: "split CHR ''='' (a @ CHR ''='' # s) = w # v # ws"
    by (cases "split CHR ''='' (a @ CHR ''='' # s)"; cases "tl (split CHR ''='' (a @ CHR ''='' # s))") auto
  have "last (split CHR ''='' (a @ CHR ''='' # s)) = s" using s by (rule last_split)
  with e have "last (v # ws) = s" by simp
  with e show ?thesis by (simp add: signature_of_def pop_def or_empty_def)
qed

lemma signature_of_no_separator:
  "CHR ''='' \<notin> set h \<Longrightarrow> algo_of h = toLowerCase h \<and> signature_of h = []"
  by (simp add: algo_of_def signature_of_def split_no_sep pop_def or_empty_def toLowerCase_def)

subsection \<open>Dispatch\<close>

lemma onRequest_GET: "http_method req = ''GET'' \<Longrightarrow> onRequest n createHmac req = onGetRequest n req"
  by (simp add: onRequest_def)

lemma onRequest_POST:
  "http_method req = ''POST'' \<Longrightarrow> onRequest n createHmac req = onPostRequest n createHmac req"
  by (simp add: onRequest_def)

lemma onRequest_other:
  "http_method req \<noteq> ''GET'' \<Longrightarrow> http_method req \<noteq> ''POST'' \<Longrightarrow>
   onRequest n createHmac req = ([SendStatus 403], None)"
  by (simp add: onRequest_def)

subsection \<open>The examples, evaluated\<close>

lemma toLowerCase_example:
  "toLowerCase [CHR ''S'', CHR 0xC9, CHR 0xD7, CHR 0xDF, CHR ''1'', CHR ''z'']
   = [CHR ''s'', CHR 0xE9, CHR 0xD7, CHR 0xDF, CHR ''1'', CHR ''z'']"
  by code_simp

lemma to_string_example:
  "to_string (Arr [Str ''a'', Undefined, Arr [Str ''b'', Str ''c''], Obj []])
   = ''a,,b,c,[object Object]''"
  by simp

lemma algo_examples:
  "algo_of ''md0=6f'' = ''md0''" "algo_of ''sha1=00'' = ''sha1''" "algo_of ''SHA1=6F'' = ''sha1''"
  by code_simp+

lemma signature_examples:
  "signature_of ''md0=6f'' = ''6f''" "signature_of ''sha1=00'' = ''00''"
  "signature_of ''SHA1=6F'' = ''6f''"
  by code_simp+

lemma digest_example: "toLowerCase (stub_digest ''s3cret'' example_raw) = ''6f''"
  by code_simp

lemma lacks_field_examples: "lacks_field untitled_entry" "lacks_field bare_link_entry"
  "missing_field untitled_entry" "\<not> missing_field bare_link_entry"
  by code_simp+

text \<open>A signed notification with a complete entry: one \<open>notified\<close> event, then
  the response 200.\<close>

lemma notified_example:
  "onPostRequest secret_notifier stub_createHmac
        (post_request [(''x-hub-signature'', ''SHA1=6F'')] (feed_with_entry example_entry)
           (Some example_raw))
   = ([Emit (Str ''notified'')
         (Obj [(''video'', Obj [(''id'', Str ''VID1''), (''title'', Str ''Hello''),
                                (''link'', Str ''https://www.youtube.com/watch?v=VID1'')]),
               (''channel'', Obj [(''id'', Str ''UC123''), (''name'', Str ''Chan''),
                                  (''link'', Str ''https://www.youtube.com/channel/UC123'')]),
               (''published'', Str ''2020-01-01T00:00:00+00:00''),
               (''updated'', Str ''2020-01-02T00:00:00+00:00'')]),
       SendStatus 200], None)"
  by (simp add: onPostRequest_def match_secret_def secret_notifier_def post_request_def
      feed_with_entry_def example_entry_def secret_set_def truthy_opt_def own_prop_def
      entry_data_def stub_createHmac_def algo_examples signature_examples digest_example
      emit_other)

text \<open>For every request that passes the signature checks and whose first entry has no
  missing element, the handler emits the one \<open>notified\<close> event and then responds
  200.\<close>

lemma onPostRequest_complete_entry:
  assumes "\<not> secret_set n
           \<or> (secret n = Some key \<and> map_of (headers req) ''x-hub-signature'' = Some h \<and> h \<noteq> []
              \<and> createHmac (algo_of h) key = Some hmac \<and> rawBody req = Some raw
              \<and> toLowerCase (hmac raw) = signature_of h)"
    and "get_path (body req) [''feed'', ''at:deleted-entry''] = Inr d" and "\<not> truthy d"
    and "get_path (body req) [''feed'', ''entry''] = Inr es" and "truthy es"
    and "get_prop es ''0'' = Inr entry" and "\<not> missing_field entry"
  shows "\<exists>data. entry_data entry = Inr data
           \<and> onPostRequest n createHmac req = ([Emit (Str ''notified'') data, SendStatus 200], None)"
proof -
  have m: "match_secret n createHmac req = None"
    using assms(1) by (auto intro: match_secret_passes)
  have s: "\<not> (secret_set n \<and> \<not> truthy_opt (map_of (headers req) ''x-hub-signature''))"
    using assms(1) by (auto simp: truthy_opt_def)
  obtain data where e: "entry_data entry = Inr data"
    using assms(7) entry_data_complete [of entry] by (cases "entry_data entry") auto
  show ?thesis
    using m s e assms(2-6) by (simp add: onPostRequest_def emit_other del: get_path.simps)
qed

subsection \<open>Unsupported algorithm\<close>

text \<open>
  C2, as stated, fails: with secret \<open>s3cret\<close>, header \<open>md0=6f\<close> (an algorithm
  the provider does not know) and a feed with an entry, \<open>createHmac\<close> throws, the
  \<open>catch\<close> block answers, and the response is 403, not 200.
\<close>

theorem bad_algorithm_forbidden:
  "stub_createHmac (algo_of ''md0=6f'') ''s3cret'' = None
   \<and> onPostRequest secret_notifier stub_createHmac
        (post_request [(''x-hub-signature'', ''md0=6f'')] (feed_with_entry example_entry)
           (Some example_raw))
       = ([SendStatus 403], None)"
  by (simp add: onPostRequest_def match_secret_def secret_notifier_def post_request_def
      feed_with_entry_def secret_set_def truthy_opt_def own_prop_def stub_createHmac_def
      algo_examples)

text \<open>
  C2, amended.  For every POST request where a secret is configured, a signature header
  is present and the algorithm name taken from the header is not valid for the crypto
  provider, the handler emits no event; when the parsed feed has no deletion marker and
  has an entry, so that the signature block is reached, the response is 403.
\<close>

theorem onPostRequest_bad_algorithm:
  assumes "secret n = Some key" and "key \<noteq> []"
    and "map_of (headers req) ''x-hub-signature'' = Some h" and "h \<noteq> []"
    and "createHmac (algo_of h) key = None"
  shows "events (fst (onPostRequest n createHmac req)) = []
         \<and> (get_path (body req) [''feed'', ''at:deleted-entry''] = Inr d \<and> \<not> truthy d
              \<and> get_path (body req) [''feed'', ''entry''] = Inr es \<and> truthy es
            \<longrightarrow> onPostRequest n createHmac req = ([SendStatus 403], None))"
proof -
  have m: "match_secret n createHmac req = Some ([SendStatus 403], None)"
    using assms by (simp add: match_secret_bad_algorithm)
  show ?thesis
    using m truthy_index [of es]
    by (auto simp: onPostRequest_def simp del: get_path.simps split: sum.splits)
qed

text \<open>C2, amended, on the request of the counterexample.\<close>

theorem onPostRequest_bad_algorithm_witness:
  "events (fst (onPostRequest secret_notifier stub_createHmac
        (post_request [(''x-hub-signature'', ''md0=6f'')] (feed_with_entry example_entry)
           (Some example_raw)))) = []
   \<and> onPostRequest secret_notifier stub_createHmac
        (post_request [(''x-hub-signature'', ''md0=6f'')] (feed_with_entry example_entry)
           (Some example_raw))
       = ([SendStatus 403], None)"
  using onPostRequest_bad_algorithm [of secret_notifier "''s3cret''"
      "post_request [(''x-hub-signature'', ''md0=6f'')] (feed_with_entry example_entry)
           (Some example_raw)" "''md0=6f''" stub_createHmac Undefined "Arr [example_entry]"]
  by (simp add: secret_notifier_def post_request_def feed_with_entry_def own_prop_def
      stub_createHmac_def algo_examples)

subsection \<open>Signature mismatch\<close>

text \<open>
  C3, as stated, fails on a feed without an entry: with secret \<open>s3cret\<close> and header
  \<open>sha1=00\<close>, which differs from the digest of the raw body, the missing-entry
  check comes first and the response is 400, not 200.
\<close>

theorem mismatch_without_entry:
  "stub_createHmac (algo_of ''sha1=00'') ''s3cret'' = Some (stub_digest ''s3cret'')
   \<and> toLowerCase (stub_digest ''s3cret'' example_raw) \<noteq> signature_of ''sha1=00''
   \<and> onPostRequest secret_notifier stub_createHmac
        (post_request [(''x-hub-signature'', ''sha1=00'')] empty_feed (Some example_raw))
       = ([End 400 text_plain ''Bad Request''], None)"
  by (simp add: onPostRequest_def secret_notifier_def post_request_def
      empty_feed_def secret_set_def truthy_opt_def own_prop_def stub_createHmac_def
      algo_examples signature_examples digest_example)

text \<open>
  C3, amended.  For every POST request where a secret is configured, a signature header
  is present and the lower-cased part after the last \<open>=\<close> differs from the
  lower-cased hex digest of the raw body under the secret and the header's algorithm,
  the handler emits no event; it responds 200 when the parsed feed has a deletion marker
  or an entry, and 400 \<open>Bad Request\<close> when it has neither.
\<close>

theorem onPostRequest_mismatch:
  assumes "secret n = Some key" and "key \<noteq> []"
    and "map_of (headers req) ''x-hub-signature'' = Some h" and "h \<noteq> []"
    and "createHmac (algo_of h) key = Some hmac" and "rawBody req = Some raw"
    and "toLowerCase (hmac raw) \<noteq> signature_of h"
  shows "events (fst (onPostRequest n createHmac req)) = []
         \<and> (get_path (body req) [''feed'', ''at:deleted-entry''] = Inr d
              \<and> (truthy d \<or> get_path (body req) [''feed'', ''entry''] = Inr es \<and> truthy es)
            \<longrightarrow> onPostRequest n createHmac req = ([SendStatus 200], None))
         \<and> (get_path (body req) [''feed'', ''at:deleted-entry''] = Inr d \<and> \<not> truthy d
              \<and> get_path (body req) [''feed'', ''entry''] = Inr es \<and> \<not> truthy es
            \<longrightarrow> onPostRequest n createHmac req = ([End 400 text_plain ''Bad Request''], None))"
proof -
  have m: "match_secret n createHmac req = Some ([SendStatus 200], None)"
    using assms by (simp add: match_secret_mismatch)
  have s: "\<not> (secret_set n \<and> \<not> truthy_opt (map_of (headers req) ''x-hub-signature''))"
    using assms by (simp add: truthy_opt_def)
  show ?thesis
    using m s truthy_index [of es]
    by (auto simp: onPostRequest_def simp del: get_path.simps split: sum.splits)
qed

text \<open>C3, amended, on a complete entry with the wrong signature.\<close>

theorem onPostRequest_mismatch_witness:
  "onPostRequest secret_notifier stub_createHmac
        (post_request [(''x-hub-signature'', ''sha1=00'')] (feed_with_entry example_entry)
           (Some example_raw))
       = ([SendStatus 200], None)
   \<and> events (fst (onPostRequest secret_notifier stub_createHmac
        (post_request [(''x-hub-signature'', ''sha1=00'')] (feed_with_entry example_entry)
           (Some example_raw)))) = []"
  using onPostRequest_mismatch [of secret_notifier "''s3cret''"
      "post_request [(''x-hub-signature'', ''sha1=00'')] (feed_with_entry example_entry)
           (Some example_raw)" "''sha1=00''" stub_createHmac "stub_digest ''s3cret''" example_raw
      Undefined "Arr [example_entry]"]
  by (simp add: secret_notifier_def post_request_def feed_with_entry_def own_prop_def
      stub_createHmac_def algo_examples signature_examples digest_example)

subsection \<open>Deleted entries\<close>

text \<open>
  C4, as stated, fails when a secret is configured and the request has no signature
  header: the header check comes before the deletion check and the response is 403.
\<close>

theorem deleted_entry_forbidden:
  "secret secret_notifier = Some ''s3cret''
   \<and> map_of (headers (post_request [] deleted_feed (Some example_raw))) ''x-hub-signature'' = None
   \<and> truthy (own_prop [(''at:deleted-entry'',
            Arr [Obj [(''$'', Obj [(''ref'', Str ''yt:video:VID1'')])]])] ''at:deleted-entry'')
   \<and> onPostRequest secret_notifier stub_createHmac (post_request [] deleted_feed (Some example_raw))
       = ([SendStatus 403], None)"
  by (simp add: onPostRequest_def secret_notifier_def post_request_def deleted_feed_def
      secret_set_def truthy_opt_def own_prop_def)

text \<open>
  C4, amended.  For every POST request whose parsed feed has the \<open>at:deleted-entry\<close>
  marker, the handler emits no event; it responds 403 when a secret is configured and
  the signature header is absent or empty, and 200 otherwise (no secret configured, or
  a non-empty signature header, whatever it holds).
\<close>

theorem onPostRequest_deleted_entry:
  assumes "get_path (body req) [''feed'', ''at:deleted-entry''] = Inr d" and "truthy d"
  shows "onPostRequest n createHmac req
         = (if secret_set n \<and> \<not> truthy_opt (map_of (headers req) ''x-hub-signature'')
            then ([SendStatus 403], None) else ([SendStatus 200], None))
         \<and> events (fst (onPostRequest n createHmac req)) = []"
  using assms by (simp add: onPostRequest_def del: get_path.simps)

text \<open>C4, amended: no secret; a secret with a wrong signature; a secret and no header;
  a secret and an empty header.\<close>

theorem onPostRequest_deleted_entry_witness:
  "onPostRequest open_notifier stub_createHmac (post_request [] deleted_feed (Some example_raw))
     = ([SendStatus 200], None)
   \<and> onPostRequest secret_notifier stub_createHmac
        (post_request [(''x-hub-signature'', ''sha1=00'')] deleted_feed (Some example_raw))
     = ([SendStatus 200], None)
   \<and> onPostRequest secret_notifier stub_createHmac (post_request [] deleted_feed None)
     = ([SendStatus 403], None)
   \<and> onPostRequest secret_notifier stub_createHmac
        (post_request [(''x-hub-signature'', [])] deleted_feed (Some example_raw))
     = ([SendStatus 403], None)"
  using onPostRequest_deleted_entry [of "post_request [] deleted_feed (Some example_raw)"
      "Arr [Obj [(''$'', Obj [(''ref'', Str ''yt:video:VID1'')])]]" open_notifier stub_createHmac]
    onPostRequest_deleted_entry [of
      "post_request [(''x-hub-signature'', ''sha1=00'')] deleted_feed (Some example_raw)"
      "Arr [Obj [(''$'', Obj [(''ref'', Str ''yt:video:VID1'')])]]" secret_notifier stub_createHmac]
    onPostRequest_deleted_entry [of "post_request [] deleted_feed None"
      "Arr [Obj [(''$'', Obj [(''ref'', Str ''yt:video:VID1'')])]]" secret_notifier stub_createHmac]
    onPostRequest_deleted_entry [of
      "post_request [(''x-hub-signature'', [])] deleted_feed (Some example_raw)"
      "Arr [Obj [(''$'', Obj [(''ref'', Str ''yt:video:VID1'')])]]" secret_notifier stub_createHmac]
  by (simp add: post_request_def deleted_feed_def own_prop_def secret_set_def truthy_opt_def
      open_notifier_def secret_notifier_def)

subsection \<open>Entries that lack a field\<close>

text \<open>
  C7, as stated, fails in two ways, and never with a 400.  For an entry without
  \<open>title\<close> the read \<open>body.title[0]\<close> throws a \<open>TypeError\<close> that nothing
  catches, and no response is sent.  For an entry whose link has attributes but no
  \<open>href\<close> nothing throws: the \<open>notified\<close> event is emitted with an undefined
  link, and the response is 200.
\<close>

theorem missing_title_or_href:
  "onPostRequest open_notifier stub_createHmac
        (post_request [] (feed_with_entry untitled_entry) (Some example_raw))
       = ([], Some TypeError)
   \<and> onPostRequest open_notifier stub_createHmac
        (post_request [] (feed_with_entry bare_link_entry) (Some example_raw))
       = ([Emit (Str ''notified'')
             (Obj [(''video'', Obj [(''id'', Str ''VID1''), (''title'', Str ''Hello''),
                                    (''link'', Undefined)]),
                   (''channel'', Obj [(''id'', Str ''UC123''), (''name'', Str ''Chan''),
                                      (''link'', Str ''https://www.youtube.com/channel/UC123'')]),
                   (''published'', Str ''2020-01-01T00:00:00+00:00''),
                   (''updated'', Str ''2020-01-02T00:00:00+00:00'')]),
           SendStatus 200], None)"
  by (simp add: onPostRequest_def match_secret_def open_notifier_def post_request_def
      feed_with_entry_def untitled_entry_def bare_link_entry_def secret_set_def truthy_opt_def
      own_prop_def entry_data_def emit_other)

text \<open>
  C7, amended.  For every POST request that passes the signature checks (no secret, or
  a matching signature) and whose first entry lacks an expected field (video id, title,
  link href, channel id, author name, author uri, published, updated), the handler
  never responds 400.  When an element on the way to a field is missing (the entry
  itself, \<open>yt:videoid\<close>, \<open>title\<close>, \<open>link\<close> or its attributes,
  \<open>yt:channelid\<close>, \<open>author\<close> or its \<open>name\<close> or \<open>uri\<close>,
  \<open>published\<close>, \<open>updated\<close>), the field access throws a \<open>TypeError\<close> that
  escapes the handler: no response is sent and no event is emitted.  Otherwise only
  the last step of a read gives \<open>undefined\<close> (an attribute bag without
  \<open>href\<close>, an empty list), and the handler emits the \<open>notified\<close> event,
  partially populated, and responds 200.
\<close>

theorem onPostRequest_lacking_field:
  assumes "\<not> secret_set n
           \<or> (secret n = Some key \<and> map_of (headers req) ''x-hub-signature'' = Some h \<and> h \<noteq> []
              \<and> createHmac (algo_of h) key = Some hmac \<and> rawBody req = Some raw
              \<and> toLowerCase (hmac raw) = signature_of h)"
    and "get_path (body req) [''feed'', ''at:deleted-entry''] = Inr d" and "\<not> truthy d"
    and "get_path (body req) [''feed'', ''entry''] = Inr es" and "truthy es"
    and "get_prop es ''0'' = Inr entry" and "lacks_field entry"
  shows "if missing_field entry
         then onPostRequest n createHmac req = ([], Some TypeError)
         else (\<exists>data. entry_data entry = Inr data \<and> partial_event data
                 \<and> onPostRequest n createHmac req
                     = ([Emit (Str ''notified'') data, SendStatus 200], None))"
proof (cases "missing_field entry")
  case True
  have m: "match_secret n createHmac req = None"
    using assms(1) by (auto intro: match_secret_passes)
  have s: "\<not> (secret_set n \<and> \<not> truthy_opt (map_of (headers req) ''x-hub-signature''))"
    using assms(1) by (auto simp: truthy_opt_def)
  have e: "entry_data entry = Inl TypeError"
    using True by (rule missing_field_fails)
  show ?thesis
    using True m s e assms(2-6) by (simp add: onPostRequest_def del: get_path.simps)
next
  case False
  from lacking_not_missing [OF assms(7) False] obtain data
    where d: "entry_data entry = Inr data" and p: "partial_event data"
    by (elim exE conjE)
  from onPostRequest_complete_entry [where createHmac = createHmac and h = h and key = key
      and hmac = hmac and raw = raw and n = n and req = req, OF assms(1-6) False] d
  have "onPostRequest n createHmac req = ([Emit (Str ''notified'') data, SendStatus 200], None)"
    by auto
  with False d p show ?thesis by simp
qed

text \<open>C7, amended, on a correctly signed notification whose entry has no title, and on
  an unsigned one whose link has no \<open>href\<close>.\<close>

theorem onPostRequest_lacking_field_witness:
  "onPostRequest secret_notifier stub_createHmac
        (post_request [(''x-hub-signature'', ''SHA1=6F'')] (feed_with_entry untitled_entry)
           (Some example_raw))
       = ([], Some TypeError)
   \<and> (\<exists>data. partial_event data
         \<and> onPostRequest open_notifier stub_createHmac
              (post_request [] (feed_with_entry bare_link_entry) (Some example_raw))
             = ([Emit (Str ''notified'') data, SendStatus 200], None))"
  using onPostRequest_lacking_field [where n = secret_notifier and key = "''s3cret''"
      and req = "post_request [(''x-hub-signature'', ''SHA1=6F'')] (feed_with_entry untitled_entry)
           (Some example_raw)" and h = "''SHA1=6F''" and createHmac = stub_createHmac
      and hmac = "stub_digest ''s3cret''" and raw = example_raw
      and d = Undefined and es = "Arr [untitled_entry]" and entry = untitled_entry]
    onPostRequest_lacking_field [where n = open_notifier and key = "[]"
      and req = "post_request [] (feed_with_entry bare_link_entry) (Some example_raw)"
      and h = "[]" and createHmac = stub_createHmac
      and hmac = "stub_digest []" and raw = example_raw
      and d = Undefined and es = "Arr [bare_link_entry]" and entry = bare_link_entry]
  by (auto simp: secret_notifier_def open_notifier_def post_request_def feed_with_entry_def
      own_prop_def stub_createHmac_def algo_examples signature_examples digest_example
      lacks_field_examples secret_set_def truthy_opt_def)

end
